theory Spec2Isabelle
  imports Main
begin

section \<open>JavaScript values\<close>

text \<open>
  The panel and the operator are untyped JavaScript, and what they receive from the host
  application (operator results, operator parameters, the value carried by a selection
  event) is arbitrary JSON-like data. Objects are association lists in which a later
  binding of a key overrides an earlier one. Numbers carry an integer; the code never
  computes with a number it receives, it only tests one for truthiness.
\<close>

datatype jsval =
    JUndefined
  | JNull
  | JBool bool
  | JNum int
  | JStr string
  | JArr "jsval list"
  | JObj "(string \<times> jsval) list"

datatype js_error = TypeError

text \<open>Truthiness, as tested by \<^verbatim>\<open>a || b\<close>.\<close>

fun truthy :: "jsval \<Rightarrow> bool" where
  "truthy JUndefined = False"
| "truthy JNull = False"
| "truthy (JBool b) = b"
| "truthy (JNum n) = (n \<noteq> 0)"
| "truthy (JStr s) = (s \<noteq> [])"
| "truthy (JArr xs) = True"
| "truthy (JObj kv) = True"

definition js_or :: "jsval \<Rightarrow> jsval \<Rightarrow> jsval" where
  "js_or a b = (if truthy a then a else b)"

text \<open>
  \<^verbatim>\<open>v.k\<close> for the data fields the source reads (\<^verbatim>\<open>url\<close>, \<^verbatim>\<open>urls\<close>,
  \<^verbatim>\<open>name\<close>): a TypeError on \<^verbatim>\<open>undefined\<close> and \<^verbatim>\<open>null\<close>, the bound value on
  an object that has the key, and \<^verbatim>\<open>undefined\<close> otherwise (none of these names is
  inherited by a primitive or an array).
\<close>

fun get_field :: "jsval \<Rightarrow> string \<Rightarrow> js_error + jsval" where
  "get_field JUndefined k = Inl TypeError"
| "get_field JNull k = Inl TypeError"
| "get_field (JObj kv) k =
     (case map_of (rev kv) k of None \<Rightarrow> Inr JUndefined | Some v \<Rightarrow> Inr v)"
| "get_field v k = Inr JUndefined"

text \<open>\<^verbatim>\<open>v?.k\<close>: optional chaining never throws.\<close>

definition opt_chain :: "jsval \<Rightarrow> string \<Rightarrow> jsval" where
  "opt_chain v k = (case get_field v k of Inl e \<Rightarrow> JUndefined | Inr w \<Rightarrow> w)"

text \<open>\<^verbatim>\<open>Array.isArray\<close>, and the elements of a value that passed it.\<close>

fun isArray :: "jsval \<Rightarrow> bool" where
  "isArray (JArr xs) = True"
| "isArray v = False"

fun elements :: "jsval \<Rightarrow> jsval list" where
  "elements (JArr xs) = xs"
| "elements v = []"

text \<open>The values on which a field access throws.\<close>

fun nullish :: "jsval \<Rightarrow> bool" where
  "nullish JUndefined = True"
| "nullish JNull = True"
| "nullish v = False"

section \<open>State.ts: the shared cell\<close>

definition iframeURLAtom_default :: string where
  "iframeURLAtom_default = ''http://127.0.0.1:5000''"

section \<open>MLFlow.tsx: the panel\<close>

definition defaultUrl :: string where
  "defaultUrl = ''http://127.0.0.1:5000''"

text \<open>
  What \<^verbatim>\<open>useOperatorExecutor\<close> hands to the panel. The hook belongs to the host
  application, so the panel's model takes whatever snapshot the host provides.
\<close>

record operator_executor =
  isExecuting :: bool
  result :: jsval

text \<open>
  The hooks of \<^verbatim>\<open>MLFlowPanel\<close> (with those of \<^verbatim>\<open>useServerAvailability\<close> and of
  the \<^verbatim>\<open>URLInputForm\<close> child). \<open>inputUrl\<close> is the text field of the form; the form's
  state exists only while the form is on screen and starts from the empty string, so the
  field is the empty string whenever the form is not rendered. \<open>pending\<close> holds the
  \<^verbatim>\<open>fetch\<close> promises that have not settled, \<open>probed\<close> every URL handed to
  \<^verbatim>\<open>fetch\<close> so far, oldest first.
\<close>

record panel_state =
  serverAvailable :: bool
  url :: string
  experimentURLValue :: jsval
  getExperimentURLs :: operator_executor
  inputUrl :: string
  pending :: "string list"
  probed :: "string list"

text \<open>The rendered output: the elements of the panel that the claims speak about.\<close>

datatype menu_item = MenuItem (item_key: jsval) (item_value: jsval) (item_label: jsval)

datatype element =
    CircularProgress
  | URLInputForm
  | NoExperimentsFound
  | Select jsval "menu_item list"
  | Iframe jsval

definition experimentURLs :: "panel_state \<Rightarrow> jsval" where
  "experimentURLs p = opt_chain (result (getExperimentURLs p)) ''urls''"

definition loadingExperimentURLs :: "panel_state \<Rightarrow> bool" where
  "loadingExperimentURLs p = isExecuting (getExperimentURLs p)"

text \<open>
  \<^verbatim>\<open>experimentURLs.map((item) => <MenuItem key={item.url} value={item.url}>{item.name}</MenuItem>)\<close>;
  reading a field of a \<^verbatim>\<open>null\<close> item throws, and the render fails.
\<close>

fun menu_items :: "jsval list \<Rightarrow> js_error + menu_item list" where
  "menu_items [] = Inr []"
| "menu_items (item # rest) =
     (case get_field item ''url'' of
        Inl e \<Rightarrow> Inl e
      | Inr u \<Rightarrow>
         (case get_field item ''name'' of
            Inl e \<Rightarrow> Inl e
          | Inr n \<Rightarrow>
             (case menu_items rest of
                Inl e \<Rightarrow> Inl e
              | Inr ms \<Rightarrow> Inr (MenuItem u u n # ms))))"

definition MLFlowPanel :: "panel_state \<Rightarrow> js_error + element list" where
  "MLFlowPanel p =
     (if loadingExperimentURLs p \<or> isArray (experimentURLs p) = False
      then Inr [CircularProgress]
      else
        (let xs = elements (experimentURLs p) in
         case (if length xs > 1 then menu_items xs else Inr []) of
           Inl e \<Rightarrow> Inl e
         | Inr items \<Rightarrow>
             Inr ((if serverAvailable p then [] else [URLInputForm])
                @ (if length xs = 0 then [NoExperimentsFound] else [])
                @ (if length xs > 1 then [Select (experimentURLValue p) items] else [])
                @ [Iframe (js_or (experimentURLValue p) (JStr defaultUrl))])))"

text \<open>What is on screen: nothing when the render threw.\<close>

definition rendered :: "panel_state \<Rightarrow> element list" where
  "rendered p = (case MLFlowPanel p of Inl e \<Rightarrow> [] | Inr els \<Rightarrow> els)"

fun select_options :: "element list \<Rightarrow> menu_item list option" where
  "select_options [] = None"
| "select_options (Select v items # es) = Some items"
| "select_options (e # es) = select_options es"

fun iframe_src :: "element list \<Rightarrow> jsval option" where
  "iframe_src [] = None"
| "iframe_src (Iframe v # es) = Some v"
| "iframe_src (e # es) = iframe_src es"

subsection \<open>Hooks and handlers\<close>

text \<open>
  The effect of \<^verbatim>\<open>useServerAvailability\<close>: \<^verbatim>\<open>fetch(url, {mode: "no-cors"})\<close>. It runs
  after the first render and after every render in which \<open>url\<close> has changed.
\<close>

definition probe_effect :: "panel_state \<Rightarrow> panel_state" where
  "probe_effect p = p\<lparr>pending := pending p @ [url p], probed := probed p @ [url p]\<rparr>"

text \<open>
  \<^verbatim>\<open>setUrl\<close>: a state setter called with the current value changes nothing and schedules
  no render, so the effect does not run again.
\<close>

definition setUrl :: "string \<Rightarrow> panel_state \<Rightarrow> panel_state" where
  "setUrl newUrl p = (if newUrl = url p then p else probe_effect (p\<lparr>url := newUrl\<rparr>))"

definition handleUpdateUrl :: "string \<Rightarrow> panel_state \<Rightarrow> panel_state" where
  "handleUpdateUrl newUrl p = setUrl newUrl p"

text \<open>\<^verbatim>\<open>handleSubmit\<close> of the form: \<^verbatim>\<open>onSubmit(inputUrl)\<close>.\<close>

definition handleSubmit :: "panel_state \<Rightarrow> panel_state" where
  "handleSubmit p = handleUpdateUrl (inputUrl p) p"

text \<open>\<^verbatim>\<open>onChange\<close> of the text field: \<^verbatim>\<open>setInputUrl(e.target.value)\<close>.\<close>

definition setInputUrl :: "string \<Rightarrow> panel_state \<Rightarrow> panel_state" where
  "setInputUrl v p = p\<lparr>inputUrl := v\<rparr>"

text \<open>\<^verbatim>\<open>handleExperimentURLChange\<close>, given \<^verbatim>\<open>event.target.value\<close>.\<close>

definition handleExperimentURLChange :: "jsval \<Rightarrow> panel_state \<Rightarrow> panel_state" where
  "handleExperimentURLChange v p = p\<lparr>experimentURLValue := v\<rparr>"

text \<open>The two continuations of the probe: \<^verbatim>\<open>.then\<close> and \<^verbatim>\<open>.catch\<close>.\<close>

definition fetch_then :: "string \<Rightarrow> panel_state \<Rightarrow> panel_state" where
  "fetch_then u p = p\<lparr>pending := remove1 u (pending p), serverAvailable := True\<rparr>"

definition fetch_catch :: "string \<Rightarrow> panel_state \<Rightarrow> panel_state" where
  "fetch_catch u p = p\<lparr>pending := remove1 u (pending p), serverAvailable := False\<rparr>"

text \<open>
  After every update the panel renders again; a form that is no longer on screen loses
  its state.
\<close>

definition form_rendered :: "panel_state \<Rightarrow> bool" where
  "form_rendered p = (URLInputForm \<in> set (rendered p))"

definition reconcile :: "panel_state \<Rightarrow> panel_state" where
  "reconcile p = (if form_rendered p then p else p\<lparr>inputUrl := []\<rparr>)"

text \<open>
  The first render and its effects: the initial values of the \<^verbatim>\<open>useState\<close> hooks, the
  first probe, and \<^verbatim>\<open>getExperimentURLs.execute()\<close>, after which the host provides the
  executor snapshot \<open>e\<close>.
\<close>

definition mount :: "operator_executor \<Rightarrow> panel_state" where
  "mount e = probe_effect
     \<lparr>serverAvailable = True, url = defaultUrl, experimentURLValue = JStr [],
      getExperimentURLs = e, inputUrl = [], pending = [], probed = []\<rparr>"

section \<open>Operator.ts: the \<^verbatim>\<open>set_iframe_url\<close> operator\<close>

text \<open>
  The application state: the shared cell and the panel, which is mounted or not.
\<close>

record app_state =
  iframeURLAtom :: jsval
  panel :: "panel_state option"

definition initial_app_state :: app_state where
  "initial_app_state = \<lparr>iframeURLAtom = JStr iframeURLAtom_default, panel = None\<rparr>"

text \<open>\<^verbatim>\<open>execute({hooks, params})\<close>: \<^verbatim>\<open>hooks.setIframeUrl(params.url)\<close>.\<close>

definition SetIframeURL_execute :: "jsval \<Rightarrow> app_state \<Rightarrow> js_error + app_state" where
  "SetIframeURL_execute params s =
     (case get_field params ''url'' of
        Inl e \<Rightarrow> Inl e
      | Inr v \<Rightarrow> Inr (s\<lparr>iframeURLAtom := v\<rparr>))"

section \<open>Events\<close>

text \<open>
  Everything that can happen to the application: the host mounts or unmounts the panel or
  changes the executor snapshot, a probe of the mounted panel settles, the user types
  into the form, submits it, or picks option \<open>k\<close> of the selector, and some caller
  executes \<^verbatim>\<open>set_iframe_url\<close> with parameters \<open>params\<close>. An event of the user
  interface happens only while its element is on screen, and a probe settles only if it
  is in flight.
\<close>

datatype event =
    PanelMount operator_executor
  | PanelUnmount
  | ExecutorChanged operator_executor
  | FetchResolved string
  | FetchRejected string
  | InputChange string
  | FormSubmit
  | SelectChange nat
  | SetIframeURL jsval

fun panel_handler :: "event \<Rightarrow> panel_state \<Rightarrow> panel_state" where
  "panel_handler (ExecutorChanged e) p = p\<lparr>getExperimentURLs := e\<rparr>"
| "panel_handler (FetchResolved u) p = (if u \<in> set (pending p) then fetch_then u p else p)"
| "panel_handler (FetchRejected u) p = (if u \<in> set (pending p) then fetch_catch u p else p)"
| "panel_handler (InputChange v) p = (if form_rendered p then setInputUrl v p else p)"
| "panel_handler FormSubmit p = (if form_rendered p then handleSubmit p else p)"
| "panel_handler (SelectChange k) p =
     (case select_options (rendered p) of
        None \<Rightarrow> p
      | Some items \<Rightarrow>
          if k < length items then handleExperimentURLChange (item_value (items ! k)) p
          else p)"
| "panel_handler ev p = p"

definition panel_step :: "event \<Rightarrow> panel_state \<Rightarrow> panel_state" where
  "panel_step ev p = reconcile (panel_handler ev p)"

text \<open>
  A rejected \<^verbatim>\<open>execute\<close> (parameters \<^verbatim>\<open>null\<close> or \<^verbatim>\<open>undefined\<close>) writes nothing.
\<close>

fun step :: "event \<Rightarrow> app_state \<Rightarrow> app_state" where
  "step (PanelMount e) s =
     (case panel s of None \<Rightarrow> s\<lparr>panel := Some (mount e)\<rparr> | Some p \<Rightarrow> s)"
| "step PanelUnmount s = s\<lparr>panel := None\<rparr>"
| "step (SetIframeURL params) s =
     (case SetIframeURL_execute params s of Inl e \<Rightarrow> s | Inr s' \<Rightarrow> s')"
| "step ev s = s\<lparr>panel := map_option (panel_step ev) (panel s)\<rparr>"

fun run :: "event list \<Rightarrow> app_state \<Rightarrow> app_state" where
  "run [] s = s"
| "run (ev # evs) s = run evs (step ev s)"

text \<open>A descriptor \<^verbatim>\<open>{name, url}\<close> as the remote operation returns it.\<close>

definition descriptor :: "string \<times> string \<Rightarrow> jsval" where
  "descriptor d = JObj [(''name'', JStr (fst d)), (''url'', JStr (snd d))]"

section \<open>The invariant of the specification and example data\<close>

text \<open>
  The specification's invariant of the shared cell, in its words: always a syntactically
  valid URL or the empty or default value, never null. The repository has no notion of a
  syntactically valid URL, so the notion is a parameter.
\<close>

fun spec_IframeURL_invariant :: "(string \<Rightarrow> bool) \<Rightarrow> jsval \<Rightarrow> bool" where
  "spec_IframeURL_invariant valid_url (JStr s) =
     (s = [] \<or> s = iframeURLAtom_default \<or> valid_url s)"
| "spec_IframeURL_invariant valid_url v = False"

text \<open>The most permissive notion of validity: every string passes.\<close>

definition any_string :: "string \<Rightarrow> bool" where
  "any_string s = True"

text \<open>The panel is not mounted, or it is and \<open>serverAvailable\<close> holds.\<close>

definition available_or_unmounted :: "app_state \<Rightarrow> bool" where
  "available_or_unmounted s = (case panel s of None \<Rightarrow> True | Some p \<Rightarrow> serverAvailable p)"

text \<open>Executor snapshots and a panel state used as concrete inputs below.\<close>

definition loading_example :: operator_executor where
  "loading_example = \<lparr>isExecuting = True, result = JUndefined\<rparr>"

definition no_experiments :: operator_executor where
  "no_experiments = \<lparr>isExecuting = False, result = JObj [(''urls'', JArr [])]\<rparr>"

definition two_experiments :: panel_state where
  "two_experiments =
     \<lparr>serverAvailable = True, url = ''http://127.0.0.1:5000'', experimentURLValue = JStr [],
      getExperimentURLs =
        \<lparr>isExecuting = False,
         result = JObj [(''urls'',
           JArr [JObj [(''name'', JStr ''baseline''), (''url'', JStr [])],
                 JObj [(''name'', JStr ''tuned''),
                       (''url'', JStr ''http://127.0.0.1:5000/#/experiments/2'')]])]\<rparr>,
      inputUrl = [], pending = [], probed = [''http://127.0.0.1:5000'']\<rparr>"

definition one_experiment :: operator_executor where
  "one_experiment =
     \<lparr>isExecuting = False,
      result = JObj [(''urls'',
        JArr [JObj [(''name'', JStr ''baseline''),
                    (''url'', JStr ''http://127.0.0.1:5000/#/experiments/1'')]])]\<rparr>"

text \<open>
  The panel is not mounted, or it has issued a probe and its latest probe is of the
  current target \<open>url\<close>.
\<close>

definition probed_target :: "app_state \<Rightarrow> bool" where
  "probed_target s =
     (case panel s of None \<Rightarrow> True | Some p \<Rightarrow> probed p \<noteq> [] \<and> last (probed p) = url p)"

section \<open>Basic facts about the render and the handlers\<close>

lemmas panel_defs = MLFlowPanel_def experimentURLs_def loadingExperimentURLs_def
lemmas handler_defs = probe_effect_def setUrl_def handleUpdateUrl_def handleSubmit_def
  setInputUrl_def handleExperimentURLChange_def fetch_then_def fetch_catch_def
lemmas eval_defs = initial_app_state_def iframeURLAtom_default_def defaultUrl_def mount_def
  panel_step_def reconcile_def form_rendered_def rendered_def panel_defs handler_defs
  opt_chain_def js_or_def descriptor_def SetIframeURL_execute_def

lemma MLFlowPanel_cong:
  assumes "serverAvailable q = serverAvailable p"
    and "experimentURLValue q = experimentURLValue p"
    and "getExperimentURLs q = getExperimentURLs p"
  shows "MLFlowPanel q = MLFlowPanel p"
  unfolding panel_defs assms by (rule refl)

lemma rendered_cong:
  assumes "serverAvailable q = serverAvailable p"
    and "experimentURLValue q = experimentURLValue p"
    and "getExperimentURLs q = getExperimentURLs p"
  shows "rendered q = rendered p"
  using MLFlowPanel_cong [OF assms] by (simp add: rendered_def)

lemma form_in_panel:
  assumes "MLFlowPanel p = Inr els"
  shows "(URLInputForm \<in> set els) = (\<not> serverAvailable p \<and> els \<noteq> [CircularProgress])"
  using assms by (auto simp: panel_defs Let_def split: if_splits sum.splits)

lemma form_rendered_unavailable: "form_rendered p \<Longrightarrow> \<not> serverAvailable p"
  by (auto simp: form_rendered_def rendered_def form_in_panel split: sum.splits)

lemma reconcile_fields [simp]:
  "serverAvailable (reconcile p) = serverAvailable p"
  "url (reconcile p) = url p"
  "experimentURLValue (reconcile p) = experimentURLValue p"
  "getExperimentURLs (reconcile p) = getExperimentURLs p"
  "pending (reconcile p) = pending p"
  "probed (reconcile p) = probed p"
  by (simp_all add: reconcile_def)

lemma rendered_reconcile [simp]: "rendered (reconcile p) = rendered p"
  by (rule rendered_cong) simp_all

lemma MLFlowPanel_reconcile [simp]: "MLFlowPanel (reconcile p) = MLFlowPanel p"
  by (rule MLFlowPanel_cong) simp_all

lemma menu_items_descriptors:
  "menu_items (map descriptor ds) =
     Inr (map (\<lambda>d. MenuItem (JStr (snd d)) (JStr (snd d)) (JStr (fst d))) ds)"
  by (induction ds) (simp_all add: descriptor_def)

lemma MLFlowPanel_descriptors:
  assumes "\<not> isExecuting (getExperimentURLs p)"
    and "opt_chain (result (getExperimentURLs p)) ''urls'' = JArr (map descriptor ds)"
    and "2 \<le> length ds"
  shows "MLFlowPanel p =
     Inr ((if serverAvailable p then [] else [URLInputForm])
        @ [Select (experimentURLValue p)
             (map (\<lambda>d. MenuItem (JStr (snd d)) (JStr (snd d)) (JStr (fst d))) ds),
           Iframe (js_or (experimentURLValue p) (JStr defaultUrl))])"
proof -
  have "1 < length ds" and "ds \<noteq> []"
    using assms(3) by auto
  then show ?thesis
    using assms(1,2) by (simp add: panel_defs menu_items_descriptors)
qed

subsection \<open>When the form is on screen, from the inputs of the render\<close>

lemma get_field_throws: "isl (get_field v k) = nullish v"
  by (cases v) (simp_all split: option.splits)

lemma menu_items_throws: "isl (menu_items xs) = (\<not> list_all (\<lambda>x. \<not> nullish x) xs)"
proof (induction xs)
  case Nil
  then show ?case by simp
next
  case (Cons x xs)
  have "isl (get_field x ''url'') = nullish x" "isl (get_field x ''name'') = nullish x"
    by (rule get_field_throws)+
  then show ?case using Cons.IH
    by (auto split: sum.splits)
qed

lemma form_rendered_inputs:
  "(URLInputForm \<in> set (rendered p))
     = (\<not> serverAvailable p
        \<and> \<not> isExecuting (getExperimentURLs p)
        \<and> isArray (experimentURLs p)
        \<and> (length (elements (experimentURLs p)) \<le> 1
            \<or> list_all (\<lambda>x. \<not> nullish x) (elements (experimentURLs p))))"
proof (cases "isExecuting (getExperimentURLs p) \<or> \<not> isArray (experimentURLs p)")
  case True
  then show ?thesis by (auto simp: rendered_def MLFlowPanel_def loadingExperimentURLs_def)
next
  case False
  show ?thesis
  proof (cases "1 < length (elements (experimentURLs p))")
    case short: False
    then show ?thesis using False
      by (auto simp: rendered_def MLFlowPanel_def loadingExperimentURLs_def Let_def)
  next
    case True
    show ?thesis
    proof (cases "menu_items (elements (experimentURLs p))")
      case (Inl e)
      then have "\<not> list_all (\<lambda>x. \<not> nullish x) (elements (experimentURLs p))"
        using menu_items_throws [of "elements (experimentURLs p)"] by simp
      then show ?thesis using False True Inl
        by (auto simp: rendered_def MLFlowPanel_def loadingExperimentURLs_def Let_def)
    next
      case (Inr items)
      then have "list_all (\<lambda>x. \<not> nullish x) (elements (experimentURLs p))"
        using menu_items_throws [of "elements (experimentURLs p)"] by simp
      then show ?thesis using False True Inr
        by (auto simp: rendered_def MLFlowPanel_def loadingExperimentURLs_def Let_def)
    qed
  qed
qed

lemma panel_step_fetch_fields:
  "getExperimentURLs (panel_step (FetchRejected u) p) = getExperimentURLs p"
  "getExperimentURLs (panel_step (FetchResolved u) p) = getExperimentURLs p"
  by (simp_all add: panel_step_def fetch_catch_def fetch_then_def)

subsection \<open>Without a rejected probe the server stays available\<close>

lemma panel_step_available:
  assumes "serverAvailable p" and "\<And>u. ev \<noteq> FetchRejected u"
  shows "serverAvailable (panel_step ev p)"
  using assms by (cases ev) (auto simp: panel_step_def handler_defs split: option.splits)

lemma step_available:
  assumes "available_or_unmounted s" and "\<And>u. ev \<noteq> FetchRejected u"
  shows "available_or_unmounted (step ev s)"
proof (cases "panel s")
  case None
  then show ?thesis
    by (cases ev)
      (simp_all add: available_or_unmounted_def mount_def probe_effect_def
        SetIframeURL_execute_def split: sum.splits)
next
  case (Some p)
  then have "serverAvailable p"
    using assms(1) by (simp add: available_or_unmounted_def)
  then have "serverAvailable (panel_step ev p)"
    using assms(2) by (rule panel_step_available)
  then show ?thesis
    using Some \<open>serverAvailable p\<close>
    by (cases ev)
      (simp_all add: available_or_unmounted_def SetIframeURL_execute_def split: sum.splits)
qed

lemma run_available:
  assumes "available_or_unmounted s" and "\<And>u. FetchRejected u \<notin> set evs"
  shows "available_or_unmounted (run evs s)"
  using assms
proof (induction evs arbitrary: s)
  case Nil
  then show ?case by simp
next
  case (Cons ev evs)
  have "available_or_unmounted (step ev s)"
    using Cons.prems by (intro step_available) auto
  then show ?case using Cons.IH Cons.prems(2) by simp
qed

subsection \<open>The latest probe is of the current target\<close>

lemma panel_step_probed:
  assumes "probed p \<noteq> [] \<and> last (probed p) = url p"
  shows "probed (panel_step ev p) \<noteq> [] \<and> last (probed (panel_step ev p)) = url (panel_step ev p)"
  using assms by (cases ev) (auto simp: panel_step_def handler_defs split: option.splits)

lemma step_probed:
  assumes "probed_target s"
  shows "probed_target (step ev s)"
proof (cases "panel s")
  case None
  then show ?thesis
    by (cases ev)
      (simp_all add: probed_target_def mount_def probe_effect_def
        SetIframeURL_execute_def split: sum.splits)
next
  case (Some p)
  then have "probed p \<noteq> [] \<and> last (probed p) = url p"
    using assms by (simp add: probed_target_def)
  from this panel_step_probed [OF this, of ev] show ?thesis
    using Some
    by (cases ev)
      (simp_all add: probed_target_def SetIframeURL_execute_def split: sum.splits)
qed

lemma run_probed: "probed_target s \<Longrightarrow> probed_target (run evs s)"
  by (induction evs arbitrary: s) (simp_all add: step_probed)

subsection \<open>The shared cell and the panel do not touch each other\<close>

lemma step_cell:
  "iframeURLAtom (step ev s) =
     (case ev of
        SetIframeURL params \<Rightarrow>
          (case get_field params ''url'' of Inl e \<Rightarrow> iframeURLAtom s | Inr v \<Rightarrow> v)
      | _ \<Rightarrow> iframeURLAtom s)"
  by (cases ev) (simp_all add: SetIframeURL_execute_def split: sum.splits option.splits)

lemma step_panel_indep:
  assumes "panel s = panel t"
  shows "panel (step ev s) = panel (step ev t)"
proof (cases ev)
  case (PanelMount e)
  then show ?thesis using assms by (simp split: option.splits)
next
  case (SetIframeURL params)
  then show ?thesis using assms by (simp add: SetIframeURL_execute_def split: sum.splits)
qed (simp_all add: assms)

lemma run_panel_indep:
  assumes "panel s = panel t"
  shows "panel (run evs s) = panel (run evs t)"
  using assms
proof (induction evs arbitrary: s t)
  case Nil
  then show ?case by simp
next
  case (Cons ev evs)
  from Cons.prems have "panel (step ev s) = panel (step ev t)"
    by (rule step_panel_indep)
  then have "panel (run evs (step ev s)) = panel (run evs (step ev t))"
    by (rule Cons.IH)
  then show ?case by simp
qed

section \<open>The claims\<close>

subsection \<open>C1: the URL-override form\<close>

text \<open>
  C1. A URL submitted through the override form should become the probe target and the
  iframe's source. Here the panel is mounted, the probe of the default URL rejects, the
  user types \<^verbatim>\<open>http://10.0.0.5:5000\<close> and submits: the probe target is the submitted
  URL and it has been probed, but the iframe's src is still the hardcoded default. The
  panel takes \<open>url\<close> from \<^verbatim>\<open>useServerAvailability\<close> and never uses it.
\<close>

theorem override_url_not_iframe_src:
  "panel (run [PanelMount no_experiments, FetchRejected ''http://127.0.0.1:5000'',
               InputChange ''http://10.0.0.5:5000'', FormSubmit] initial_app_state)
     = Some \<lparr>serverAvailable = False, url = ''http://10.0.0.5:5000'',
            experimentURLValue = JStr [], getExperimentURLs = no_experiments,
            inputUrl = ''http://10.0.0.5:5000'', pending = [''http://10.0.0.5:5000''],
            probed = [''http://127.0.0.1:5000'', ''http://10.0.0.5:5000'']\<rparr>
   \<and> rendered
        \<lparr>serverAvailable = False, url = ''http://10.0.0.5:5000'',
         experimentURLValue = JStr [], getExperimentURLs = no_experiments,
         inputUrl = ''http://10.0.0.5:5000'', pending = [''http://10.0.0.5:5000''],
         probed = [''http://127.0.0.1:5000'', ''http://10.0.0.5:5000'']\<rparr>
     = [URLInputForm, NoExperimentsFound, Iframe (JStr ''http://127.0.0.1:5000'')]"
  by (simp add: no_experiments_def eval_defs)

subsection \<open>C2: the invariant of the shared cell\<close>

text \<open>
  C2, amended. The shared cell has one writer, the \<^verbatim>\<open>set_iframe_url\<close> handler, which
  stores its \<open>url\<close> parameter as it is: typing into the override form, submitting it and
  choosing an option of the selector leave the cell unchanged. So every event preserves
  the invariant (a syntactically valid URL or the empty or default value, never null),
  whatever validity means, except a \<^verbatim>\<open>set_iframe_url\<close> whose \<open>url\<close> parameter itself
  violates it.
\<close>

theorem cell_invariant_preserved:
  assumes "spec_IframeURL_invariant valid_url (iframeURLAtom s)"
    and "case ev of
           SetIframeURL params \<Rightarrow>
             (case get_field params ''url'' of
                Inl e \<Rightarrow> True
              | Inr v \<Rightarrow> spec_IframeURL_invariant valid_url v)
         | _ \<Rightarrow> True"
  shows "spec_IframeURL_invariant valid_url (iframeURLAtom (step ev s))
    \<and> iframeURLAtom (step (InputChange x) s) = iframeURLAtom s
    \<and> iframeURLAtom (step FormSubmit s) = iframeURLAtom s
    \<and> iframeURLAtom (step (SelectChange k) s) = iframeURLAtom s"
  unfolding step_cell using assms by (cases ev) (simp_all split: sum.splits)

theorem cell_invariant_preserved_witness:
  "spec_IframeURL_invariant any_string (iframeURLAtom initial_app_state)
   \<and> spec_IframeURL_invariant any_string (JStr ''http://10.0.0.5:5000'')
   \<and> spec_IframeURL_invariant any_string (iframeURLAtom
        (step (SetIframeURL (JObj [(''url'', JStr ''http://10.0.0.5:5000'')])) initial_app_state))"
  using cell_invariant_preserved [of any_string initial_app_state
      "SetIframeURL (JObj [(''url'', JStr ''http://10.0.0.5:5000'')])"]
  by (simp add: initial_app_state_def SetIframeURL_execute_def any_string_def)

text \<open>
  The claim as written fails: \<^verbatim>\<open>set_iframe_url\<close> with \<^verbatim>\<open>{url: null}\<close> leaves
  \<^verbatim>\<open>null\<close> in the cell, which violates the invariant even if every string counts as a
  valid URL.
\<close>

theorem cell_invariant_null_counterexample:
  "spec_IframeURL_invariant any_string (iframeURLAtom initial_app_state)
   \<and> iframeURLAtom (step (SetIframeURL (JObj [(''url'', JNull)])) initial_app_state) = JNull
   \<and> \<not> spec_IframeURL_invariant any_string
        (iframeURLAtom (step (SetIframeURL (JObj [(''url'', JNull)])) initial_app_state))"
  by (simp add: initial_app_state_def SetIframeURL_execute_def)

subsection \<open>C3: the selector\<close>

text \<open>
  C3, amended. Once the fetch is no longer executing and the result's \<open>urls\<close> field is
  an array of \<open>N \<ge> 2\<close> descriptors, the selector has exactly \<open>N\<close> options, option
  \<open>i\<close> is labelled by the name of descriptor \<open>i\<close> and carries its url as key and
  value, and choosing option \<open>k\<close> sets the iframe's src to the url of descriptor \<open>k\<close>
  if that url is not the empty string, and to the hardcoded default if it is.
\<close>

theorem selector_options_and_choice:
  assumes "\<not> isExecuting (getExperimentURLs p)"
    and "opt_chain (result (getExperimentURLs p)) ''urls'' = JArr (map descriptor ds)"
    and "2 \<le> length ds"
    and "k < length ds"
  shows "select_options (rendered p)
           = Some (map (\<lambda>d. MenuItem (JStr (snd d)) (JStr (snd d)) (JStr (fst d))) ds)
    \<and> map_option length (select_options (rendered p)) = Some (length ds)
    \<and> iframe_src (rendered (panel_step (SelectChange k) p))
           = Some (JStr (if snd (ds ! k) = [] then defaultUrl else snd (ds ! k)))"
proof -
  let ?items = "map (\<lambda>d. MenuItem (JStr (snd d)) (JStr (snd d)) (JStr (fst d))) ds"
  have opts: "select_options (rendered p) = Some ?items"
    using MLFlowPanel_descriptors [OF assms(1-3)] by (simp add: rendered_def)
  let ?q = "handleExperimentURLChange (JStr (snd (ds ! k))) p"
  have h: "panel_handler (SelectChange k) p = ?q"
    using opts assms(4) by simp
  have q1: "\<not> isExecuting (getExperimentURLs ?q)"
    and q2: "opt_chain (result (getExperimentURLs ?q)) ''urls'' = JArr (map descriptor ds)"
    using assms(1,2) by (simp_all add: handleExperimentURLChange_def)
  have "iframe_src (rendered ?q)
          = Some (JStr (if snd (ds ! k) = [] then defaultUrl else snd (ds ! k)))"
    using MLFlowPanel_descriptors [OF q1 q2 assms(3)]
    by (simp add: rendered_def js_or_def handleExperimentURLChange_def)
  then show ?thesis
    using opts h by (simp add: panel_step_def)
qed

theorem selector_options_and_choice_witness:
  "select_options (rendered two_experiments)
     = Some [MenuItem (JStr []) (JStr []) (JStr ''baseline''),
             MenuItem (JStr ''http://127.0.0.1:5000/#/experiments/2'')
               (JStr ''http://127.0.0.1:5000/#/experiments/2'') (JStr ''tuned'')]
   \<and> map_option length (select_options (rendered two_experiments)) = Some 2
   \<and> iframe_src (rendered (panel_step (SelectChange 1) two_experiments))
       = Some (JStr ''http://127.0.0.1:5000/#/experiments/2'')"
  using selector_options_and_choice [of two_experiments
      "[(''baseline'', []), (''tuned'', ''http://127.0.0.1:5000/#/experiments/2'')]" 1]
  by (simp add: two_experiments_def opt_chain_def descriptor_def)

text \<open>
  The claim as written fails for a descriptor whose url is the empty string: the first
  option of \<open>two_experiments\<close> carries the value \<^verbatim>\<open>""\<close>, and choosing it (here
  after the second option) puts the iframe on the hardcoded default.
\<close>

theorem selector_choice_counterexample:
  "select_options (rendered two_experiments)
     = Some [MenuItem (JStr []) (JStr []) (JStr ''baseline''),
             MenuItem (JStr ''http://127.0.0.1:5000/#/experiments/2'')
               (JStr ''http://127.0.0.1:5000/#/experiments/2'') (JStr ''tuned'')]
   \<and> iframe_src (rendered (panel_step (SelectChange 1) two_experiments))
       = Some (JStr ''http://127.0.0.1:5000/#/experiments/2'')
   \<and> iframe_src (rendered
        (panel_step (SelectChange 0) (panel_step (SelectChange 1) two_experiments)))
       = Some (JStr ''http://127.0.0.1:5000'')
   \<and> iframe_src (rendered
        (panel_step (SelectChange 0) (panel_step (SelectChange 1) two_experiments)))
       \<noteq> Some (JStr [])"
  by (simp add: two_experiments_def eval_defs)

subsection \<open>C4: the availability prober\<close>

text \<open>
  C4, amended. For every probe in flight: if it resolves, \<open>serverAvailable\<close> becomes
  true and the URL-override form is not rendered; if it rejects, \<open>serverAvailable\<close>
  becomes false, and the form is rendered exactly when the panel is past loading
  (\<open>isExecuting\<close> false and \<open>urls\<close> an array) and the render does not throw (at most
  one item, or no item \<^verbatim>\<open>null\<close> or \<^verbatim>\<open>undefined\<close>); while the panel is loading only
  the indicator is on screen. Setting the target URL to a different value issues one new
  probe, of the new value.
\<close>

theorem probe_outcome_sets_availability:
  "(u \<in> set (pending p) \<longrightarrow>
      serverAvailable (panel_step (FetchResolved u) p)
      \<and> URLInputForm \<notin> set (rendered (panel_step (FetchResolved u) p))
      \<and> \<not> serverAvailable (panel_step (FetchRejected u) p)
      \<and> (URLInputForm \<in> set (rendered (panel_step (FetchRejected u) p)))
          = (\<not> isExecuting (getExperimentURLs p)
             \<and> isArray (experimentURLs p)
             \<and> (length (elements (experimentURLs p)) \<le> 1
                 \<or> list_all (\<lambda>x. \<not> nullish x) (elements (experimentURLs p))))
      \<and> (URLInputForm \<in> set (rendered (panel_step (FetchRejected u) p)))
          = (rendered (panel_step (FetchRejected u) p) \<noteq> [CircularProgress]
             \<and> rendered (panel_step (FetchRejected u) p) \<noteq> []))
   \<and> url (setUrl v p) = v
   \<and> pending (setUrl v p) = (if v = url p then pending p else pending p @ [v])
   \<and> probed (setUrl v p) = (if v = url p then probed p else probed p @ [v])"
proof -
  have a: "serverAvailable (panel_step (FetchResolved u) p)" if "u \<in> set (pending p)"
    using that by (simp add: panel_step_def fetch_then_def)
  then have b: "URLInputForm \<notin> set (rendered (panel_step (FetchResolved u) p))"
    if "u \<in> set (pending p)"
    using that form_rendered_unavailable [of "panel_step (FetchResolved u) p"]
    by (auto simp: form_rendered_def)
  have c: "\<not> serverAvailable (panel_step (FetchRejected u) p)" if "u \<in> set (pending p)"
    using that by (simp add: panel_step_def fetch_catch_def)
  have i: "(URLInputForm \<in> set (rendered (panel_step (FetchRejected u) p)))
          = (\<not> isExecuting (getExperimentURLs p)
             \<and> isArray (experimentURLs p)
             \<and> (length (elements (experimentURLs p)) \<le> 1
                 \<or> list_all (\<lambda>x. \<not> nullish x) (elements (experimentURLs p))))"
    if "u \<in> set (pending p)"
  proof -
    have "experimentURLs (panel_step (FetchRejected u) p) = experimentURLs p"
      by (simp add: experimentURLs_def panel_step_fetch_fields)
    then show ?thesis
      using c [OF that] form_rendered_inputs [of "panel_step (FetchRejected u) p"]
      by (simp add: panel_step_fetch_fields)
  qed
  have d: "(URLInputForm \<in> set (rendered (panel_step (FetchRejected u) p)))
        = (rendered (panel_step (FetchRejected u) p) \<noteq> [CircularProgress]
           \<and> rendered (panel_step (FetchRejected u) p) \<noteq> [])"
    if "u \<in> set (pending p)"
  proof (cases "MLFlowPanel (panel_step (FetchRejected u) p)")
    case (Inl e)
    then show ?thesis by (simp add: rendered_def)
  next
    case (Inr els)
    then show ?thesis using c [OF that] form_in_panel [OF Inr] by (auto simp: rendered_def)
  qed
  have e: "url (setUrl v p) = v"
    "pending (setUrl v p) = (if v = url p then pending p else pending p @ [v])"
    "probed (setUrl v p) = (if v = url p then probed p else probed p @ [v])"
    by (simp_all add: setUrl_def probe_effect_def)
  show ?thesis using a b c i d e by blast
qed

theorem probe_outcome_sets_availability_witness:
  "''http://127.0.0.1:5000'' \<in> set (pending (mount one_experiment))
   \<and> serverAvailable (panel_step (FetchResolved ''http://127.0.0.1:5000'') (mount one_experiment))
   \<and> URLInputForm \<notin> set (rendered
        (panel_step (FetchResolved ''http://127.0.0.1:5000'') (mount one_experiment)))
   \<and> \<not> serverAvailable
        (panel_step (FetchRejected ''http://127.0.0.1:5000'') (mount one_experiment))
   \<and> URLInputForm \<in> set (rendered
        (panel_step (FetchRejected ''http://127.0.0.1:5000'') (mount one_experiment)))
   \<and> pending (setUrl ''http://10.0.0.5:5000'' (mount one_experiment))
        = [''http://127.0.0.1:5000'', ''http://10.0.0.5:5000'']"
proof -
  have h: "''http://127.0.0.1:5000'' \<in> set (pending (mount one_experiment))"
    by (simp add: eval_defs)
  have r: "rendered (panel_step (FetchRejected ''http://127.0.0.1:5000'') (mount one_experiment))
      = [URLInputForm, Iframe (JStr ''http://127.0.0.1:5000'')]"
    by (simp add: one_experiment_def eval_defs)
  have u: "url (mount one_experiment) = ''http://127.0.0.1:5000''"
    "pending (mount one_experiment) = [''http://127.0.0.1:5000'']"
    by (simp_all add: eval_defs)
  show ?thesis
    using h r u
      probe_outcome_sets_availability
        [of "''http://127.0.0.1:5000''" "mount one_experiment" "''http://10.0.0.5:5000''"]
    by simp
qed

text \<open>
  The claim as written fails while the panel is loading: a probe that rejects then sets
  \<open>serverAvailable\<close> to false, but the panel renders the loading indicator alone and no
  form.
\<close>

theorem probe_rejected_while_loading_counterexample:
  "''http://127.0.0.1:5000'' \<in> set (pending (mount loading_example))
   \<and> \<not> serverAvailable
        (panel_step (FetchRejected ''http://127.0.0.1:5000'') (mount loading_example))
   \<and> rendered (panel_step (FetchRejected ''http://127.0.0.1:5000'') (mount loading_example))
        = [CircularProgress]
   \<and> URLInputForm \<notin> set (rendered
        (panel_step (FetchRejected ''http://127.0.0.1:5000'') (mount loading_example)))"
  by (simp add: loading_example_def eval_defs)

subsection \<open>C5: a single descriptor\<close>

text \<open>
  C5. When the \<open>urls\<close> field of the result is an array of exactly one descriptor, no
  selector is rendered and the arrival of the result leaves the selection value as it
  was; once the fetch is no longer executing, the iframe's src is the selection value if
  the user had set one and the hardcoded default otherwise, so that a freshly mounted
  panel shows the default URL.
\<close>

theorem single_descriptor_no_selector:
  assumes "opt_chain (result (getExperimentURLs p)) ''urls'' = JArr [d]"
  shows "select_options (rendered p) = None
    \<and> experimentURLValue (panel_step (ExecutorChanged (getExperimentURLs p)) q)
         = experimentURLValue q
    \<and> (\<not> isExecuting (getExperimentURLs p) \<longrightarrow>
         MLFlowPanel p = Inr ((if serverAvailable p then [] else [URLInputForm])
           @ [Iframe (if truthy (experimentURLValue p) then experimentURLValue p
                      else JStr defaultUrl)])
         \<and> iframe_src (rendered (panel_step (ExecutorChanged (getExperimentURLs p)) (mount e)))
             = Some (JStr defaultUrl))"
  using assms
  by (simp add: rendered_def panel_defs js_or_def panel_step_def mount_def probe_effect_def)

theorem single_descriptor_no_selector_witness:
  "select_options (rendered (panel_step (ExecutorChanged one_experiment) (mount loading_example)))
     = None
   \<and> MLFlowPanel (panel_step (ExecutorChanged one_experiment) (mount loading_example))
     = Inr [Iframe (JStr ''http://127.0.0.1:5000'')]
   \<and> experimentURLValue (panel_step (ExecutorChanged one_experiment) (mount loading_example))
     = JStr []"
proof -
  let ?p = "panel_step (ExecutorChanged one_experiment) (mount loading_example)"
  have g: "getExperimentURLs ?p = one_experiment"
    by (simp add: panel_step_def)
  have a: "opt_chain (result (getExperimentURLs ?p)) ''urls''
      = JArr [JObj [(''name'', JStr ''baseline''),
                    (''url'', JStr ''http://127.0.0.1:5000/#/experiments/1'')]]"
    unfolding g by (simp add: one_experiment_def opt_chain_def)
  have b: "\<not> isExecuting (getExperimentURLs ?p)"
    unfolding g by (simp add: one_experiment_def)
  have c: "serverAvailable ?p" "experimentURLValue ?p = JStr []"
    by (simp_all add: panel_step_def mount_def probe_effect_def)
  show ?thesis
    using single_descriptor_no_selector [OF a, of "mount loading_example" loading_example] b c
    by (simp add: defaultUrl_def)
qed

subsection \<open>C6: the operator writes its parameter\<close>

text \<open>
  C6. For every string \<open>X\<close> and every application state, executing
  \<^verbatim>\<open>set_iframe_url\<close> with parameters \<^verbatim>\<open>{url: X}\<close> succeeds and leaves the shared cell
  holding exactly \<open>X\<close>, whatever the state of the panel.
\<close>

theorem set_iframe_url_writes_verbatim:
  "SetIframeURL_execute (JObj [(''url'', JStr X)]) s = Inr (s\<lparr>iframeURLAtom := JStr X\<rparr>)
   \<and> iframeURLAtom (step (SetIframeURL (JObj [(''url'', JStr X)])) s) = JStr X"
  by (simp add: SetIframeURL_execute_def)

subsection \<open>C7: the loading branch\<close>

text \<open>
  C7. Whenever \<open>isExecuting\<close> is true, or the \<open>urls\<close> field of the result is absent or
  not an array, the panel renders the loading indicator and nothing else.
\<close>

theorem loading_renders_only_progress:
  assumes "isExecuting (getExperimentURLs p)
           \<or> \<not> isArray (opt_chain (result (getExperimentURLs p)) ''urls'')"
  shows "MLFlowPanel p = Inr [CircularProgress]"
  using assms by (auto simp: panel_defs)

theorem loading_renders_only_progress_witness:
  "MLFlowPanel
     \<lparr>serverAvailable = False, url = ''http://127.0.0.1:5000'',
      experimentURLValue = JStr ''http://127.0.0.1:5000/#/experiments/2'',
      getExperimentURLs = \<lparr>isExecuting = False, result = JNull\<rparr>,
      inputUrl = [], pending = [], probed = [''http://127.0.0.1:5000'']\<rparr>
   = Inr [CircularProgress]"
  by (rule loading_renders_only_progress) (simp add: opt_chain_def)

subsection \<open>C8: the submitted URL is the probed URL\<close>

text \<open>
  C8, amended. In every reachable state in which the override form is on screen, typing a
  string \<open>S\<close> (empty or not) and submitting the form makes \<open>S\<close> the probe target. If
  \<open>S\<close> differs from the previous target, exactly one new probe is issued, and the URL
  handed to \<^verbatim>\<open>fetch\<close> is exactly \<open>S\<close>; if \<open>S\<close> is the previous target, no probe
  is issued, and the latest probe was of \<open>S\<close> already.
\<close>

theorem submitted_url_is_probed:
  assumes "panel (run evs initial_app_state) = Some p"
    and "URLInputForm \<in> set (rendered p)"
  shows "url (panel_step FormSubmit (panel_step (InputChange S) p)) = S
    \<and> last (probed (panel_step FormSubmit (panel_step (InputChange S) p))) = S
    \<and> pending (panel_step FormSubmit (panel_step (InputChange S) p))
        = (if S = url p then pending p else pending p @ [S])
    \<and> probed (panel_step FormSubmit (panel_step (InputChange S) p))
        = (if S = url p then probed p else probed p @ [S])"
proof -
  have "probed_target (run evs initial_app_state)"
    by (rule run_probed) (simp add: probed_target_def initial_app_state_def)
  then have inv: "probed p \<noteq> []" "last (probed p) = url p"
    using assms(1) by (simp_all add: probed_target_def)
  have f: "form_rendered p"
    using assms(2) by (simp add: form_rendered_def)
  let ?q = "setInputUrl S p"
  have "rendered ?q = rendered p"
    by (rule rendered_cong) (simp_all add: setInputUrl_def)
  then have fq: "form_rendered ?q"
    using f by (simp add: form_rendered_def)
  then have q: "panel_step (InputChange S) p = ?q"
    using f by (simp add: panel_step_def reconcile_def)
  have "panel_handler FormSubmit ?q = setUrl S ?q"
    using fq by (simp add: handleSubmit_def handleUpdateUrl_def setInputUrl_def)
  then show ?thesis
    using q inv by (simp add: panel_step_def setUrl_def probe_effect_def setInputUrl_def)
qed

theorem submitted_url_is_probed_witness:
  "panel (run [PanelMount no_experiments, FetchRejected ''http://127.0.0.1:5000'']
        initial_app_state)
     = Some \<lparr>serverAvailable = False, url = ''http://127.0.0.1:5000'',
            experimentURLValue = JStr [], getExperimentURLs = no_experiments,
            inputUrl = [], pending = [], probed = [''http://127.0.0.1:5000'']\<rparr>
   \<and> URLInputForm \<in> set (rendered
        \<lparr>serverAvailable = False, url = ''http://127.0.0.1:5000'',
         experimentURLValue = JStr [], getExperimentURLs = no_experiments,
         inputUrl = [], pending = [], probed = [''http://127.0.0.1:5000'']\<rparr>)
   \<and> url (panel_step FormSubmit (panel_step (InputChange ''http://10.0.0.5:5000'')
        \<lparr>serverAvailable = False, url = ''http://127.0.0.1:5000'',
         experimentURLValue = JStr [], getExperimentURLs = no_experiments,
         inputUrl = [], pending = [], probed = [''http://127.0.0.1:5000'']\<rparr>))
      = ''http://10.0.0.5:5000''
   \<and> probed (panel_step FormSubmit (panel_step (InputChange ''http://10.0.0.5:5000'')
        \<lparr>serverAvailable = False, url = ''http://127.0.0.1:5000'',
         experimentURLValue = JStr [], getExperimentURLs = no_experiments,
         inputUrl = [], pending = [], probed = [''http://127.0.0.1:5000'']\<rparr>))
      = [''http://127.0.0.1:5000'', ''http://10.0.0.5:5000'']"
proof -
  let ?evs = "[PanelMount no_experiments, FetchRejected ''http://127.0.0.1:5000'']"
  let ?p = "\<lparr>serverAvailable = False, url = ''http://127.0.0.1:5000'',
            experimentURLValue = JStr [], getExperimentURLs = no_experiments,
            inputUrl = [], pending = [], probed = [''http://127.0.0.1:5000'']\<rparr>"
  have a: "panel (run ?evs initial_app_state) = Some ?p"
    by (simp add: no_experiments_def eval_defs)
  have b: "URLInputForm \<in> set (rendered ?p)"
    by (simp add: no_experiments_def eval_defs)
  show ?thesis
    using a b submitted_url_is_probed [OF a b, of "''http://10.0.0.5:5000''"] by simp
qed

text \<open>
  The claim as written fails for a string equal to the current target: after the probe of
  the default URL has rejected, typing the default URL again and submitting it issues no
  probe at all (\<open>pending\<close> and \<open>probed\<close> are as before the submission).
\<close>

theorem resubmitted_target_not_probed_counterexample:
  "panel (run [PanelMount no_experiments, FetchRejected ''http://127.0.0.1:5000'']
        initial_app_state)
     = Some \<lparr>serverAvailable = False, url = ''http://127.0.0.1:5000'',
            experimentURLValue = JStr [], getExperimentURLs = no_experiments,
            inputUrl = [], pending = [], probed = [''http://127.0.0.1:5000'']\<rparr>
   \<and> panel (run [PanelMount no_experiments, FetchRejected ''http://127.0.0.1:5000'',
                 InputChange ''http://127.0.0.1:5000'', FormSubmit] initial_app_state)
     = Some \<lparr>serverAvailable = False, url = ''http://127.0.0.1:5000'',
            experimentURLValue = JStr [], getExperimentURLs = no_experiments,
            inputUrl = ''http://127.0.0.1:5000'', pending = [],
            probed = [''http://127.0.0.1:5000'']\<rparr>"
  by (simp add: no_experiments_def eval_defs)

subsection \<open>C9: the form appears only after a rejected probe\<close>

text \<open>
  C9. A freshly mounted panel has \<open>serverAvailable\<close> true and does not render the
  URL-override form; and in every state the application reaches from its initial state,
  if the form is rendered then some probe has rejected before.
\<close>

theorem form_hidden_until_probe_rejected:
  "serverAvailable (mount e)
   \<and> URLInputForm \<notin> set (rendered (mount e))
   \<and> (panel (run evs initial_app_state) = Some p \<and> URLInputForm \<in> set (rendered p)
        \<longrightarrow> (\<exists>u. FetchRejected u \<in> set evs))"
proof -
  have m: "serverAvailable (mount e)"
    by (simp add: mount_def probe_effect_def)
  then have n: "URLInputForm \<notin> set (rendered (mount e))"
    using form_rendered_unavailable [of "mount e"] by (auto simp: form_rendered_def)
  have r: "\<exists>u. FetchRejected u \<in> set evs"
    if reach: "panel (run evs initial_app_state) = Some p"
      and form: "URLInputForm \<in> set (rendered p)"
  proof (rule ccontr)
    assume "\<not> (\<exists>u. FetchRejected u \<in> set evs)"
    then have "available_or_unmounted (run evs initial_app_state)"
      by (intro run_available) (simp_all add: available_or_unmounted_def initial_app_state_def)
    then have "serverAvailable p"
      using reach by (simp add: available_or_unmounted_def)
    then show False
      using form form_rendered_unavailable [of p] by (simp add: form_rendered_def)
  qed
  show ?thesis using m n r by blast
qed

theorem form_hidden_until_probe_rejected_witness:
  "panel (run [PanelMount no_experiments, FetchRejected ''http://127.0.0.1:5000'']
        initial_app_state)
     = Some \<lparr>serverAvailable = False, url = ''http://127.0.0.1:5000'',
            experimentURLValue = JStr [], getExperimentURLs = no_experiments,
            inputUrl = [], pending = [], probed = [''http://127.0.0.1:5000'']\<rparr>
   \<and> URLInputForm \<in> set (rendered
        \<lparr>serverAvailable = False, url = ''http://127.0.0.1:5000'',
         experimentURLValue = JStr [], getExperimentURLs = no_experiments,
         inputUrl = [], pending = [], probed = [''http://127.0.0.1:5000'']\<rparr>)
   \<and> serverAvailable (mount no_experiments)
   \<and> URLInputForm \<notin> set (rendered (mount no_experiments))
   \<and> FetchRejected ''http://127.0.0.1:5000''
        \<in> set [PanelMount no_experiments, FetchRejected ''http://127.0.0.1:5000'']"
proof -
  let ?evs = "[PanelMount no_experiments, FetchRejected ''http://127.0.0.1:5000'']"
  let ?p = "\<lparr>serverAvailable = False, url = ''http://127.0.0.1:5000'',
            experimentURLValue = JStr [], getExperimentURLs = no_experiments,
            inputUrl = [], pending = [], probed = [''http://127.0.0.1:5000'']\<rparr>"
  have a: "panel (run ?evs initial_app_state) = Some ?p"
    by (simp add: no_experiments_def eval_defs)
  have b: "URLInputForm \<in> set (rendered ?p)"
    by (simp add: no_experiments_def eval_defs)
  show ?thesis
    using a b form_hidden_until_probe_rejected [of no_experiments ?evs ?p] by simp
qed

subsection \<open>C10: the operator and the panel are independent\<close>

text \<open>
  C10. Executing \<^verbatim>\<open>set_iframe_url\<close> leaves the panel's state as it was; and from two
  application states that differ only in the shared cell, every sequence of events leads
  to the same panel state and the same render. So the write never changes the displayed
  iframe. (\<^verbatim>\<open>MLFlow.tsx\<close> imports neither \<^verbatim>\<open>State.ts\<close> nor the state library.)
\<close>

theorem set_iframe_url_frame:
  "panel (step (SetIframeURL params) s) = panel s
   \<and> panel (run evs (s\<lparr>iframeURLAtom := a\<rparr>)) = panel (run evs (s\<lparr>iframeURLAtom := b\<rparr>))
   \<and> map_option MLFlowPanel (panel (run evs (s\<lparr>iframeURLAtom := a\<rparr>)))
       = map_option MLFlowPanel (panel (run evs (s\<lparr>iframeURLAtom := b\<rparr>)))
   \<and> map_option (\<lambda>p. iframe_src (rendered p)) (panel (step (SetIframeURL params) s))
       = map_option (\<lambda>p. iframe_src (rendered p)) (panel s)"
proof -
  have f1: "panel (step (SetIframeURL params) s) = panel s"
    by (simp add: SetIframeURL_execute_def split: sum.splits)
  have f2: "panel (run evs (s\<lparr>iframeURLAtom := a\<rparr>)) = panel (run evs (s\<lparr>iframeURLAtom := b\<rparr>))"
    by (rule run_panel_indep) simp
  have f3: "map_option MLFlowPanel (panel (run evs (s\<lparr>iframeURLAtom := a\<rparr>)))
       = map_option MLFlowPanel (panel (run evs (s\<lparr>iframeURLAtom := b\<rparr>)))"
    by (simp only: f2)
  have f4: "map_option (\<lambda>p. iframe_src (rendered p)) (panel (step (SetIframeURL params) s))
       = map_option (\<lambda>p. iframe_src (rendered p)) (panel s)"
    by (simp only: f1)
  from f1 f2 f3 f4 show ?thesis by (intro conjI)
qed

end
